theory Spec2Isabelle
  imports Main
begin

section \<open>Python strings\<close>

text \<open>
  A Python \<open>str\<close> is a sequence of Unicode code points, and is modelled as a list of
  natural numbers; \<open>lit\<close> turns an ASCII literal of the program into one. The names of
  environment variables and of tool arguments, which the program only writes as literals,
  stay Isabelle strings. Exceptions are values of the type \<open>error\<close>, one constructor for
  each exception class the program raises or receives; the argument is the text
  \<open>str(e)\<close> gives.
\<close>

type_synonym pystr = "nat list"

definition lit :: "string \<Rightarrow> pystr" where
  "lit s = map of_char s"

datatype error =
    ValueError pystr
  | RuntimeError pystr
  | IndexError pystr
  | TypeError pystr
  | DriverError pystr
  | ValidationError pystr

fun str_of_error :: "error \<Rightarrow> pystr" where
  "str_of_error (ValueError m) = m"
| "str_of_error (RuntimeError m) = m"
| "str_of_error (IndexError m) = m"
| "str_of_error (TypeError m) = m"
| "str_of_error (DriverError m) = m"
| "str_of_error (ValidationError m) = m"

text \<open>The line feed \<open>'\n'\<close>, and the characters the program tests one at a time.\<close>

abbreviation NL :: nat where
  "NL \<equiv> 10"

abbreviation DOT :: nat where
  "DOT \<equiv> 46"

abbreviation SLASH :: nat where
  "SLASH \<equiv> 47"

abbreviation STAR :: nat where
  "STAR \<equiv> 42"

text \<open>\<open>s.startswith(p)\<close>.\<close>

fun startswith :: "pystr \<Rightarrow> pystr \<Rightarrow> bool" where
  "startswith s [] = True"
| "startswith [] (p # ps) = False"
| "startswith (c # cs) (p # ps) = (c = p \<and> startswith cs ps)"

text \<open>\<open>sub in s\<close>, for a substring \<open>sub\<close>.\<close>

fun contains :: "pystr \<Rightarrow> pystr \<Rightarrow> bool" where
  "contains [] sub = (sub = [])"
| "contains (c # cs) sub = (startswith (c # cs) sub \<or> contains cs sub)"

text \<open>\<open>s.find(sub)\<close>: the least index where \<open>sub\<close> starts, \<open>None\<close> for Python's \<open>-1\<close>.\<close>

fun find_str :: "pystr \<Rightarrow> pystr \<Rightarrow> nat option" where
  "find_str [] sub = (if sub = [] then Some 0 else None)"
| "find_str (c # cs) sub =
     (if startswith (c # cs) sub then Some 0 else map_option Suc (find_str cs sub))"

text \<open>\<open>s.split(sep)\<close> for a one-character separator: never the empty list.\<close>

fun split_on :: "nat \<Rightarrow> pystr \<Rightarrow> pystr list" where
  "split_on sep [] = [[]]"
| "split_on sep (c # cs) =
     (if c = sep then [] # split_on sep cs
      else (case split_on sep cs of
              [] \<Rightarrow> [[c]]
            | p # ps \<Rightarrow> (c # p) # ps))"

text \<open>\<open>sep.join(parts)\<close>, for parts that are strings.\<close>

fun join :: "pystr \<Rightarrow> pystr list \<Rightarrow> pystr" where
  "join sep [] = []"
| "join sep [p] = p"
| "join sep (p # q # ps) = p @ sep @ join sep (q # ps)"

text \<open>\<open>s.replace(old, new)\<close> for a non-empty \<open>old\<close>: every occurrence, left to right.\<close>

fun replace_str :: "pystr \<Rightarrow> pystr \<Rightarrow> pystr \<Rightarrow> pystr" where
  "replace_str old new [] = []"
| "replace_str old new (c # cs) =
     (if old \<noteq> [] \<and> startswith (c # cs) old
      then new @ replace_str old new (drop (length old) (c # cs))
      else c # replace_str old new cs)"

text \<open>
  \<open>s.upper()\<close> converts each code point by itself, and the upper-case of one code point
  can be several. The program only compares the result with ASCII literals, so the model
  is exact where an ASCII character can appear: on the ASCII letters, and on the seventeen
  other code points whose upper-case holds an ASCII character (U+017F, the long s, becomes
  \<open>S\<close>; U+00DF becomes \<open>SS\<close>). The upper-case of any other code point is a non-empty
  sequence of non-ASCII code points; the model keeps the code point, so that for an ASCII
  literal \<open>l\<close> the tests \<open>s.upper() == l\<close> and \<open>l in s.upper()\<close> have Python's value.
\<close>

definition upper_special :: "(nat \<times> pystr) list" where
  "upper_special =
     [(0xDF, [83, 83]), (0x131, [73]), (0x149, [700, 78]), (0x17F, [83]),
      (0x1F0, [74, 780]), (0x1E96, [72, 817]), (0x1E97, [84, 776]), (0x1E98, [87, 778]),
      (0x1E99, [89, 778]), (0x1E9A, [65, 702]), (0xFB00, [70, 70]), (0xFB01, [70, 73]),
      (0xFB02, [70, 76]), (0xFB03, [70, 70, 73]), (0xFB04, [70, 70, 76]),
      (0xFB05, [83, 84]), (0xFB06, [83, 84])]"

definition upper_char :: "nat \<Rightarrow> pystr" where
  "upper_char c =
     (if 97 \<le> c \<and> c \<le> 122 then [c - 32]
      else (case map_of upper_special c of Some u \<Rightarrow> u | None \<Rightarrow> [c]))"

definition upper :: "pystr \<Rightarrow> pystr" where
  "upper s = concat (map upper_char s)"

text \<open>
  \<open>s.lower()\<close>, in the same way: exact on the ASCII letters and on the two other code
  points whose lower-case holds an ASCII character (U+0130 and U+212A, the Kelvin sign);
  the lower-case of any other code point, the capital sigma in either of its two forms
  among them, is a non-empty sequence of non-ASCII code points.
\<close>

definition lower_char :: "nat \<Rightarrow> pystr" where
  "lower_char c =
     (if 65 \<le> c \<and> c \<le> 90 then [c + 32]
      else if c = 0x130 then [105, 775]
      else if c = 0x212A then [107]
      else [c])"

definition lower :: "pystr \<Rightarrow> pystr" where
  "lower s = concat (map lower_char s)"

text \<open>
  The code points \<open>str.isspace\<close> accepts, which are the ones \<open>strip()\<close> and \<open>split()\<close>
  treat as whitespace.
\<close>

definition is_space :: "nat \<Rightarrow> bool" where
  "is_space c =
     ((9 \<le> c \<and> c \<le> 13) \<or> (28 \<le> c \<and> c \<le> 32) \<or> c = 133 \<or> c = 160 \<or> c = 5760
      \<or> (8192 \<le> c \<and> c \<le> 8202) \<or> c = 8232 \<or> c = 8233 \<or> c = 8239 \<or> c = 8287
      \<or> c = 12288)"

text \<open>\<open>s.strip()\<close> with no argument.\<close>

definition strip :: "pystr \<Rightarrow> pystr" where
  "strip s = rev (dropWhile is_space (rev (dropWhile is_space s)))"

text \<open>
  \<open>s.split()\<close> with no argument: the maximal runs of non-space characters, in order.
  The first argument is the run being read.
\<close>

fun split_ws_from :: "pystr \<Rightarrow> pystr \<Rightarrow> pystr list" where
  "split_ws_from w [] = (if w = [] then [] else [w])"
| "split_ws_from w (c # cs) =
     (if is_space c then (if w = [] then [] else [w]) @ split_ws_from [] cs
      else split_ws_from (w @ [c]) cs)"

definition split_ws :: "pystr \<Rightarrow> pystr list" where
  "split_ws s = split_ws_from [] s"

text \<open>\<open>str(n)\<close> for an integer; the digit \<open>d\<close> is the code point \<open>48 + d\<close>.\<close>

fun str_nat :: "nat \<Rightarrow> pystr" where
  "str_nat n = (if n < 10 then [48 + n] else str_nat (n div 10) @ [48 + n mod 10])"

declare str_nat.simps [simp del]

definition str_int :: "int \<Rightarrow> pystr" where
  "str_int i = (if i < 0 then 45 # str_nat (nat (- i)) else str_nat (nat i))"

section \<open>validate_table_name\<close>

text \<open>
  The class \<open>[a-zA-Z0-9_]\<close> of the pattern.
\<close>

definition is_word_char :: "nat \<Rightarrow> bool" where
  "is_word_char c =
     ((97 \<le> c \<and> c \<le> 122) \<or> (65 \<le> c \<and> c \<le> 90) \<or> (48 \<le> c \<and> c \<le> 57) \<or> c = 95)"

text \<open>
  Python's \<open>$\<close>, without the MULTILINE flag, matches at the end of the string and also
  just before a line feed that is the last character of the string.
\<close>

definition at_dollar :: "pystr \<Rightarrow> bool" where
  "at_dollar rest = (rest = [] \<or> rest = [NL])"

text \<open>
  \<open>re.match(r'^[a-zA-Z0-9_]+(\.[a-zA-Z0-9_]+)?$', table_name)\<close>, as the backtracking
  matcher runs it. \<open>[a-zA-Z0-9_]+\<close> is greedy and takes the longest run of word characters;
  giving characters back never helps, since what follows the run must be a dot or the
  position of \<open>$\<close>, and a word character is neither. The optional group is tried first
  and skipped when it fails.
\<close>

definition match_group :: "pystr \<Rightarrow> bool" where
  "match_group rest =
     (case rest of
        [] \<Rightarrow> False
      | c # cs \<Rightarrow> c = DOT \<and> takeWhile is_word_char cs \<noteq> []
                  \<and> at_dollar (dropWhile is_word_char cs))"

definition re_match_table_name :: "pystr \<Rightarrow> bool" where
  "re_match_table_name table_name =
     (let rest = dropWhile is_word_char table_name in
        takeWhile is_word_char table_name \<noteq> [] \<and> (match_group rest \<or> at_dollar rest))"

definition validate_table_name :: "pystr \<Rightarrow> error + pystr" where
  "validate_table_name table_name =
     (if \<not> re_match_table_name table_name
      then Inl (ValueError (lit ''Invalid table name: '' @ table_name))
      else (case split_on DOT table_name of
              [schema, table] \<Rightarrow> Inr (lit ''['' @ schema @ lit ''].['' @ table @ lit '']'')
            | _ \<Rightarrow> Inr (lit ''['' @ table_name @ lit '']'')))"

section \<open>is_select_query\<close>

text \<open>
  \<open>re.sub(r'/\*.*?\*/', '', query, flags=re.DOTALL)\<close>: scanning from the left, an opener
  \<open>/*\<close> followed, two characters on or later, by a closer \<open>*/\<close> is removed up to the
  first such closer; an opener with no closer stays, and the scan moves on by one character.
\<close>

fun strip_block_comments :: "pystr \<Rightarrow> pystr" where
  "strip_block_comments [] = []"
| "strip_block_comments (c # cs) =
     (if startswith (c # cs) (lit ''/*'')
      then (case find_str (drop 1 cs) (lit ''*/'') of
              Some i \<Rightarrow> strip_block_comments (drop (i + 3) cs)
            | None \<Rightarrow> c # strip_block_comments cs)
      else c # strip_block_comments cs)"

text \<open>The body of the loop over the lines: cut the line at the first \<open>--\<close>.\<close>

definition cut_line_comment :: "pystr \<Rightarrow> pystr" where
  "cut_line_comment line =
     (case find_str line (lit ''--'') of
        Some comment_pos \<Rightarrow> take comment_pos line
      | None \<Rightarrow> line)"

definition strip_line_comments :: "pystr \<Rightarrow> pystr" where
  "strip_line_comments query_cleaned = join [NL] (map cut_line_comment (split_on NL query_cleaned))"

text \<open>
  \<open>query_cleaned.strip().split()[0] if query_cleaned.strip() else ""\<close>; the index raises
  IndexError on an empty list.
\<close>

definition first_word :: "pystr \<Rightarrow> error + pystr" where
  "first_word query_cleaned =
     (if strip query_cleaned \<noteq> []
      then (case split_ws (strip query_cleaned) of
              [] \<Rightarrow> Inl (IndexError (lit ''list index out of range''))
            | w # ws \<Rightarrow> Inr w)
      else Inr [])"

definition is_select_query :: "pystr \<Rightarrow> error + bool" where
  "is_select_query query =
     (case first_word (strip_line_comments (strip_block_comments query)) of
        Inl e \<Rightarrow> Inl e
      | Inr w \<Rightarrow> Inr (upper w = lit ''SELECT''))"

section \<open>get_db_config\<close>

text \<open>
  The process environment is a map from variable names to values; \<open>os.getenv(k, d)\<close> is
  \<open>getenv_default\<close>. The list \<open>pyodbc.drivers()\<close> returns is a parameter of the model.
  Logging has no effect on any result and is left out.
\<close>

type_synonym environ = "string \<rightharpoonup> pystr"

definition getenv_default :: "environ \<Rightarrow> string \<Rightarrow> pystr \<Rightarrow> pystr" where
  "getenv_default env k d = (case env k of None \<Rightarrow> d | Some v \<Rightarrow> v)"

text \<open>
  The dictionary \<open>get_db_config\<close> returns, one field for each key. \<open>cfg_conn_parts\<close> is
  the local list \<open>conn_parts\<close> at the moment it is joined into \<open>conn_string\<close>; it is kept
  so that properties of the connection string can be stated part by part.
\<close>

record db_config =
  cfg_conn_parts :: "pystr list"
  cfg_conn_string :: pystr
  cfg_server :: pystr
  cfg_database :: pystr
  cfg_user :: "pystr option"
  cfg_port :: pystr

text \<open>The Python literal \<open>"(localdb)\\"\<close>: the prefix followed by one backslash.\<close>

definition localdb_prefix :: pystr where
  "localdb_prefix = lit ''(localdb)'' @ [92]"

definition missing_configuration :: error where
  "missing_configuration = ValueError (lit ''Missing required database configuration'')"

definition no_driver :: error where
  "no_driver =
     RuntimeError
       (lit ''No SQL Server ODBC driver found. Please install ODBC Driver for SQL Server.'')"

text \<open>Lines 35 to 49: the host, with the LocalDB form rebuilt from its instance name.\<close>

definition resolve_server :: "environ \<Rightarrow> pystr" where
  "resolve_server env =
     (let server = getenv_default env ''MSSQL_SERVER'' (lit ''localhost'') in
        if startswith server localdb_prefix
        then localdb_prefix @ replace_str localdb_prefix [] server
        else server)"

definition use_windows_auth :: "environ \<Rightarrow> bool" where
  "use_windows_auth env =
     (lower (getenv_default env ''MSSQL_WINDOWS_AUTH'' (lit ''false'')) = lit ''true'')"

text \<open>Lines 66 to 69: the \<open>SERVER=\<close> part.\<close>

definition server_part :: "pystr \<Rightarrow> pystr \<Rightarrow> pystr" where
  "server_part server port =
     (if port \<noteq> [] \<and> port \<noteq> lit ''1433'' \<and> \<not> startswith server (lit ''(localdb)'')
      then lit ''SERVER='' @ server @ lit '','' @ port
      else lit ''SERVER='' @ server)"

text \<open>
  Lines 76 to 87: the authentication parts. \<open>not user\<close> holds for \<open>None\<close> and for the
  empty string.
\<close>

definition auth_parts :: "environ \<Rightarrow> error + pystr list" where
  "auth_parts env =
     (if use_windows_auth env then Inr [lit ''Trusted_Connection=yes'']
      else (case env ''MSSQL_USER'' of
              None \<Rightarrow> Inl missing_configuration
            | Some user \<Rightarrow>
                (case env ''MSSQL_PASSWORD'' of
                   None \<Rightarrow> Inl missing_configuration
                 | Some password \<Rightarrow>
                     if user = [] \<or> password = [] then Inl missing_configuration
                     else Inr [lit ''UID='' @ user, lit ''PWD='' @ password])))"

text \<open>Lines 89 to 101: the encryption parts.\<close>

definition encryption_parts :: "environ \<Rightarrow> pystr \<Rightarrow> pystr list" where
  "encryption_parts env server =
     (if contains server (lit ''.database.windows.net'')
      then (if lower (getenv_default env ''MSSQL_ENCRYPT'' (lit ''true'')) = lit ''true''
            then [lit ''Encrypt=yes'', lit ''TrustServerCertificate=no'']
            else [])
      else (if lower (getenv_default env ''MSSQL_ENCRYPT'' (lit ''false'')) = lit ''true''
            then [lit ''Encrypt=yes'', lit ''TrustServerCertificate=yes'']
            else []))"

text \<open>Line 55: the registered drivers whose name contains the product marker.\<close>

definition sql_server_drivers :: "pystr list \<Rightarrow> pystr list" where
  "sql_server_drivers pyodbc_drivers =
     filter (\<lambda>d. contains d (lit ''SQL Server'')) pyodbc_drivers"

text \<open>
  The function, in the order of its checks: the driver, then the database name, then the
  credentials.
\<close>

definition get_db_config :: "environ \<Rightarrow> pystr list \<Rightarrow> error + db_config" where
  "get_db_config env pyodbc_drivers =
     (let server = resolve_server env;
          port = getenv_default env ''MSSQL_PORT'' (lit ''1433'')
      in case sql_server_drivers pyodbc_drivers of
           [] \<Rightarrow> Inl no_driver
         | driver # _ \<Rightarrow>
             (case env ''MSSQL_DATABASE'' of
                None \<Rightarrow> Inl missing_configuration
              | Some database \<Rightarrow>
                  if database = [] then Inl missing_configuration
                  else (case auth_parts env of
                          Inl e \<Rightarrow> Inl e
                        | Inr auth \<Rightarrow>
                            (let conn_parts =
                                   [lit ''DRIVER={'' @ driver @ lit ''}'',
                                    server_part server port,
                                    lit ''DATABASE='' @ database]
                                   @ auth @ encryption_parts env server
                             in Inr \<lparr>cfg_conn_parts = conn_parts,
                                     cfg_conn_string = join (lit '';'') conn_parts,
                                     cfg_server = server,
                                     cfg_database = database,
                                     cfg_user = (if use_windows_auth env
                                                 then Some (lit ''Windows Auth'')
                                                 else env ''MSSQL_USER''),
                                     cfg_port = port\<rparr>))))"

definition get_command :: "environ \<Rightarrow> pystr" where
  "get_command env = getenv_default env ''MSSQL_COMMAND'' (lit ''execute_sql'')"

section \<open>The database driver\<close>

text \<open>
  What pyodbc does is not in the program, so it is a parameter: a record that gives, for
  each call the handlers make, either the exception the call raises or its result. A
  handler is a function from the log of driver calls made so far to its outcome and the
  extended log; \<open>Inl e\<close> is the exception \<open>e\<close> leaving the handler, \<open>Inr v\<close> the value
  returned.

  A cell of a row is a Python value: a string, or a value of another type (an integer,
  \<open>None\<close>, a date), for which the model keeps the name of its type and the text \<open>str()\<close>
  gives. The name of a column is a string.
\<close>

datatype cell =
    StrCell pystr
  | ObjCell pystr pystr

text \<open>\<open>str(v)\<close>, which is also what an f-string puts for \<open>{v}\<close>.\<close>

fun cell_str :: "cell \<Rightarrow> pystr" where
  "cell_str (StrCell s) = s"
| "cell_str (ObjCell type_name text_of) = text_of"

datatype event =
    EvConnect pystr
  | EvCursor
  | EvExecute pystr
  | EvFetchall
  | EvCommit
  | EvCursorClose
  | EvConnClose

record driver =
  drv_connect :: "pystr \<Rightarrow> error + unit"
  drv_cursor :: "error + unit"
  drv_execute :: "pystr \<Rightarrow> error + unit"
  drv_description :: "pystr \<Rightarrow> pystr list option"
  drv_fetchall :: "pystr \<Rightarrow> error + cell list list"
  drv_commit :: "error + unit"
  drv_rowcount :: "pystr \<Rightarrow> int"
  drv_cursor_close :: "error + unit"
  drv_conn_close :: "error + unit"

type_synonym 'a action = "event list \<Rightarrow> (error + 'a) \<times> event list"

definition succeed :: "'a \<Rightarrow> 'a action" where
  "succeed v log = (Inr v, log)"

definition raise :: "error \<Rightarrow> 'a action" where
  "raise e log = (Inl e, log)"

text \<open>A computation without driver calls, which may raise.\<close>

definition lift :: "error + 'a \<Rightarrow> 'a action" where
  "lift r log = (r, log)"

text \<open>A driver call: it is logged, and it raises or returns.\<close>

definition call :: "event \<Rightarrow> error + 'a \<Rightarrow> 'a action" where
  "call ev r log = (r, log @ [ev])"

text \<open>Sequencing: an exception skips the rest.\<close>

definition and_then :: "'a action \<Rightarrow> ('a \<Rightarrow> 'b action) \<Rightarrow> 'b action" where
  "and_then m f log =
     (case m log of
        (Inl e, log') \<Rightarrow> (Inl e, log')
      | (Inr v, log') \<Rightarrow> f v log')"

text \<open>\<open>try: m except Exception as e: h e\<close>.\<close>

definition try_except :: "'a action \<Rightarrow> (error \<Rightarrow> 'a action) \<Rightarrow> 'a action" where
  "try_except m h log =
     (case m log of
        (Inl e, log') \<Rightarrow> h e log'
      | (Inr v, log') \<Rightarrow> (Inr v, log'))"

text \<open>\<open>[desc[0] for desc in cursor.description]\<close>; the attribute is \<open>None\<close> when the
  statement produced no result set, and iterating over \<open>None\<close> raises TypeError.\<close>

definition column_names :: "driver \<Rightarrow> pystr \<Rightarrow> error + pystr list" where
  "column_names db sql =
     (case drv_description db sql of
        None \<Rightarrow> Inl (TypeError (39 # lit ''NoneType'' @ 39 # lit '' object is not iterable''))
      | Some columns \<Rightarrow> Inr columns)"

text \<open>\<open>[table[0] for table in tables]\<close>; the index raises IndexError on an empty row.\<close>

fun first_columns :: "cell list list \<Rightarrow> error + cell list" where
  "first_columns [] = Inr []"
| "first_columns (row # rows) =
     (case row of
        [] \<Rightarrow> Inl (IndexError (lit ''tuple index out of range''))
      | c # _ \<Rightarrow> (case first_columns rows of Inl e \<Rightarrow> Inl e | Inr cs \<Rightarrow> Inr (c # cs)))"

text \<open>
  \<open>sep.join(items)\<close> for items that are Python values: the first item that is not a string
  raises TypeError, which names its index and its type.
\<close>

fun non_str_item :: "nat \<Rightarrow> cell list \<Rightarrow> (nat \<times> pystr) option" where
  "non_str_item i [] = None"
| "non_str_item i (StrCell s # items) = non_str_item (Suc i) items"
| "non_str_item i (ObjCell type_name text_of # items) = Some (i, type_name)"

definition join_items :: "pystr \<Rightarrow> cell list \<Rightarrow> error + pystr" where
  "join_items sep items =
     (case non_str_item 0 items of
        Some (i, type_name) \<Rightarrow>
          Inl (TypeError (lit ''sequence item '' @ str_nat i @ lit '': expected str instance, ''
                          @ type_name @ lit '' found''))
      | None \<Rightarrow> Inr (join sep (map cell_str items)))"

text \<open>\<open>"\n".join([",".join(columns)] + [",".join(map(str, row)) for row in rows])\<close>.\<close>

definition tabular_text :: "pystr list \<Rightarrow> cell list list \<Rightarrow> pystr" where
  "tabular_text columns rows =
     join [NL] (join (lit '','') columns # map (\<lambda>row. join (lit '','') (map cell_str row)) rows)"

section \<open>The handlers\<close>

record resource =
  uri :: pystr
  name :: pystr
  mimeType :: pystr
  description :: pystr

datatype text_content = TextContent pystr






text \<open>The body of the \<open>try\<close> of \<open>read_resource\<close>.\<close>

definition read_resource_try :: "db_config \<Rightarrow> driver \<Rightarrow> pystr \<Rightarrow> pystr action" where
  "read_resource_try config db table =
     and_then (lift (validate_table_name table)) (\<lambda>safe_table.
     let sql = lit ''SELECT TOP 100 * FROM '' @ safe_table in
     and_then (call (EvConnect (cfg_conn_string config)) (drv_connect db (cfg_conn_string config))) (\<lambda>_.
     and_then (call EvCursor (drv_cursor db)) (\<lambda>_.
     and_then (call (EvExecute sql) (drv_execute db sql)) (\<lambda>_.
     and_then (lift (column_names db sql)) (\<lambda>columns.
     and_then (call EvFetchall (drv_fetchall db sql)) (\<lambda>rows.
     and_then (call EvCursorClose (drv_cursor_close db)) (\<lambda>_.
     and_then (call EvConnClose (drv_conn_close db)) (\<lambda>_.
     succeed (tabular_text columns rows)))))))))"

text \<open>\<open>uri_str\<close> is \<open>str(uri)\<close>, the text of the URL the handler is given.\<close>

definition read_resource :: "environ \<Rightarrow> pystr list \<Rightarrow> driver \<Rightarrow> pystr \<Rightarrow> pystr action" where
  "read_resource env pyodbc_drivers db uri_str =
     and_then (lift (get_db_config env pyodbc_drivers)) (\<lambda>config.
     if \<not> startswith uri_str (lit ''mssql://'')
     then raise (ValueError (lit ''Invalid URI scheme: '' @ uri_str))
     else (case split_on SLASH (drop 8 uri_str) of
             [] \<Rightarrow> raise (IndexError (lit ''list index out of range''))
           | table # _ \<Rightarrow>
               try_except (read_resource_try config db table)
                 (\<lambda>e. raise (RuntimeError (lit ''Database error: '' @ str_of_error e)))))"

text \<open>
  The body of the \<open>try\<close> of \<open>call_tool\<close>. \<open>is_select_query\<close> has no effect, so its
  evaluation in the \<open>elif\<close> gives the value of the one in the \<open>if\<close>, and one evaluation
  stands for both. In the table-listing branch the cells \<open>table[0]\<close> are joined as they
  are, in the \<open>return\<close> statement, after the two closes: a cell that is not a string
  raises there. In the branch of the other SELECT statements every cell goes through
  \<open>str\<close> first.
\<close>

definition call_tool_try :: "db_config \<Rightarrow> driver \<Rightarrow> pystr \<Rightarrow> text_content list action" where
  "call_tool_try config db query =
     and_then (call (EvConnect (cfg_conn_string config)) (drv_connect db (cfg_conn_string config))) (\<lambda>_.
     and_then (call EvCursor (drv_cursor db)) (\<lambda>_.
     and_then (call (EvExecute query) (drv_execute db query)) (\<lambda>_.
     and_then (lift (is_select_query query)) (\<lambda>is_select.
     if is_select \<and> contains (upper query) (lit ''INFORMATION_SCHEMA.TABLES'')
     then
       and_then (call EvFetchall (drv_fetchall db query)) (\<lambda>tables.
       and_then (lift (first_columns tables)) (\<lambda>firsts.
       and_then (call EvCursorClose (drv_cursor_close db)) (\<lambda>_.
       and_then (call EvConnClose (drv_conn_close db)) (\<lambda>_.
       and_then (lift (join_items [NL]
                         (StrCell (lit ''Tables_in_'' @ cfg_database config) # firsts))) (\<lambda>listing.
       succeed [TextContent listing])))))
     else if is_select
     then
       and_then (lift (column_names db query)) (\<lambda>columns.
       and_then (call EvFetchall (drv_fetchall db query)) (\<lambda>rows.
       and_then (call EvCursorClose (drv_cursor_close db)) (\<lambda>_.
       and_then (call EvConnClose (drv_conn_close db)) (\<lambda>_.
       succeed [TextContent (tabular_text columns rows)]))))
     else
       and_then (call EvCommit (drv_commit db)) (\<lambda>_.
       and_then (call EvCursorClose (drv_cursor_close db)) (\<lambda>_.
       and_then (call EvConnClose (drv_conn_close db)) (\<lambda>_.
       succeed [TextContent (lit ''Query executed successfully. Rows affected: ''
                             @ str_int (drv_rowcount db query))])))))))"

text \<open>
  \<open>arguments.get("query")\<close> is a lookup in the map of arguments; \<open>not query\<close> holds for a
  missing argument and for the empty string. The parameter \<open>name\<close> of the source is
  \<open>tool_name\<close> here.
\<close>

definition call_tool ::
  "environ \<Rightarrow> pystr list \<Rightarrow> driver \<Rightarrow> pystr \<Rightarrow> (string \<rightharpoonup> pystr) \<Rightarrow> text_content list action" where
  "call_tool env pyodbc_drivers db tool_name arguments =
     and_then (lift (get_db_config env pyodbc_drivers)) (\<lambda>config.
     if tool_name \<noteq> get_command env
     then raise (ValueError (lit ''Unknown tool: '' @ tool_name))
     else (case arguments ''query'' of
             None \<Rightarrow> raise (ValueError (lit ''Query is required''))
           | Some query \<Rightarrow>
               if query = [] then raise (ValueError (lit ''Query is required''))
               else try_except (call_tool_try config db query)
                      (\<lambda>e. succeed [TextContent (lit ''Error executing query: '' @ str_of_error e)])))"

section \<open>Notions used to state the properties\<close>

text \<open>
  The first whitespace-delimited token of a text, as the specification words it: skip the
  leading whitespace and read up to the next whitespace. It is empty when the text holds
  no token.
\<close>

definition first_token :: "pystr \<Rightarrow> pystr" where
  "first_token s = takeWhile (\<lambda>c. \<not> is_space c) (dropWhile is_space s)"

text \<open>
  Stripping the block comments, as the specification words it: non-greedy, spanning
  newlines. The text is read once from the left, outside a comment or inside one. Outside,
  an opener \<open>/*\<close> that has a closer \<open>*/\<close> after it starts a comment, and any other
  character is kept; inside, everything is dropped up to the first closer, which ends the
  comment.
\<close>

fun scan_block_comments :: "bool \<Rightarrow> pystr \<Rightarrow> pystr" where
  "scan_block_comments inside [] = []"
| "scan_block_comments inside [c] = (if inside then [] else [c])"
| "scan_block_comments inside (a # b # cs) =
     (if inside
      then (if a = STAR \<and> b = SLASH then scan_block_comments False cs
            else scan_block_comments True (b # cs))
      else if a = SLASH \<and> b = STAR \<and> contains cs [STAR, SLASH]
      then scan_block_comments True cs
      else a # scan_block_comments False (b # cs))"

text \<open>
  Stripping the line comments, as the specification words it: on each line, everything
  from the marker \<open>--\<close> to the end of the line goes, and the line feeds stay. The text is
  read once from the left, outside a comment or inside one; a line feed ends the comment.
\<close>

fun scan_line_comments :: "bool \<Rightarrow> pystr \<Rightarrow> pystr" where
  "scan_line_comments inside [] = []"
| "scan_line_comments inside (c # cs) =
     (if c = NL then NL # scan_line_comments False cs
      else if inside then scan_line_comments True cs
      else if startswith (c # cs) [45, 45] then scan_line_comments True cs
      else c # scan_line_comments False cs)"

text \<open>The text the specification classifies: block comments stripped first, then line
  comments.\<close>

definition stripped_text :: "pystr \<Rightarrow> pystr" where
  "stripped_text sql = scan_line_comments False (scan_block_comments False sql)"

text \<open>Both stripping passes of \<open>is_select_query\<close>, in its order.\<close>

definition strip_comments :: "pystr \<Rightarrow> pystr" where
  "strip_comments query = strip_line_comments (strip_block_comments query)"

text \<open>A text holds a block comment when some opener \<open>/*\<close> has a closer \<open>*/\<close> after it.\<close>

fun has_block_comment :: "pystr \<Rightarrow> bool" where
  "has_block_comment [] = False"
| "has_block_comment (c # cs) =
     ((startswith (c # cs) (lit ''/*'') \<and> find_str (drop 1 cs) (lit ''*/'') \<noteq> None)
      \<or> has_block_comment cs)"

text \<open>An identifier of the grammar: a non-empty run of word characters.\<close>

definition is_identifier :: "pystr \<Rightarrow> bool" where
  "is_identifier s = (s \<noteq> [] \<and> list_all is_word_char s)"

text \<open>The first segment of what follows \<open>mssql://\<close> in a URI: up to the first slash.\<close>

definition table_segment :: "pystr \<Rightarrow> pystr" where
  "table_segment uri_str = takeWhile (\<lambda>c. c \<noteq> SLASH) (drop 8 uri_str)"

text \<open>The encryption settings of a descriptor: the parts that set them, in order.\<close>

definition encryption_settings :: "db_config \<Rightarrow> pystr list" where
  "encryption_settings config =
     filter (\<lambda>p. startswith p (lit ''Encrypt='') \<or> startswith p (lit ''TrustServerCertificate=''))
       (cfg_conn_parts config)"

text \<open>
  A sample environment with SQL authentication, a driver registry, a driver where every
  call succeeds, and one whose \<open>execute\<close> raises. The rows of the first driver hold an
  integer and a string.
\<close>

definition example_env :: environ where
  "example_env =
     [''MSSQL_DATABASE'' \<mapsto> lit ''shop'', ''MSSQL_USER'' \<mapsto> lit ''sa'',
      ''MSSQL_PASSWORD'' \<mapsto> lit ''pw'']"

definition example_drivers :: "pystr list" where
  "example_drivers = [lit ''SQLite3 ODBC Driver'', lit ''ODBC Driver 17 for SQL Server'']"

definition example_conn_string :: pystr where
  "example_conn_string =
     lit ''DRIVER={ODBC Driver 17 for SQL Server};SERVER=localhost;DATABASE=shop;UID=sa;PWD=pw''"

definition healthy_db :: driver where
  "healthy_db =
     \<lparr>drv_connect = (\<lambda>_. Inr ()), drv_cursor = Inr (), drv_execute = (\<lambda>_. Inr ()),
      drv_description = (\<lambda>_. Some [lit ''Id'', lit ''Name'']),
      drv_fetchall = (\<lambda>_. Inr [[ObjCell (lit ''int'') (lit ''1''), StrCell (lit ''A'')]]),
      drv_commit = Inr (), drv_rowcount = (\<lambda>_. 0),
      drv_cursor_close = Inr (), drv_conn_close = Inr ()\<rparr>"

definition rejecting_db :: driver where
  "rejecting_db = healthy_db\<lparr>drv_execute := (\<lambda>_. Inl (DriverError (lit ''syntax error'')))\<rparr>"

definition example_config :: db_config where
  "example_config =
     \<lparr>cfg_conn_parts = [lit ''DRIVER={ODBC Driver 17 for SQL Server}'', lit ''SERVER=localhost'',
                         lit ''DATABASE=shop'', lit ''UID=sa'', lit ''PWD=pw''],
      cfg_conn_string = example_conn_string,
      cfg_server = lit ''localhost'', cfg_database = lit ''shop'', cfg_user = Some (lit ''sa''),
      cfg_port = lit ''1433''\<rparr>"

text \<open>
  A driver whose catalog lists the tables \<open>Orders\<close> and \<open>Order Details\<close>, a URL validation
  that accepts every text, and one that refuses a text with a space in it.
\<close>

definition catalog_db :: driver where
  "catalog_db =
     healthy_db\<lparr>drv_fetchall :=
       (\<lambda>_. Inr [[StrCell (lit ''Orders'')], [StrCell (lit ''Order Details'')]])\<rparr>"



text \<open>Integrated authentication with no principal and no credential.\<close>

definition windows_env :: environ where
  "windows_env = [''MSSQL_DATABASE'' \<mapsto> lit ''shop'', ''MSSQL_WINDOWS_AUTH'' \<mapsto> lit ''True'']"

text \<open>A cloud-hosted server, and a local server with encryption switched on.\<close>

definition cloud_env :: environ where
  "cloud_env = example_env(''MSSQL_SERVER'' \<mapsto> lit ''shop.database.windows.net'')"

definition encrypt_env :: environ where
  "encrypt_env = example_env(''MSSQL_ENCRYPT'' \<mapsto> lit ''TRUE'')"

text \<open>An environment with the database name alone, and the arguments of three tool
  calls.\<close>

definition database_only_env :: environ where
  "database_only_env = [''MSSQL_DATABASE'' \<mapsto> lit ''shop'']"

definition rejected_arguments :: "string \<rightharpoonup> pystr" where
  "rejected_arguments = [''query'' \<mapsto> lit ''SELEC 1'']"

definition listing_arguments :: "string \<rightharpoonup> pystr" where
  "listing_arguments = [''query'' \<mapsto> lit ''select * from information_schema.tables'']"

definition delete_arguments :: "string \<rightharpoonup> pystr" where
  "delete_arguments = [''query'' \<mapsto> lit ''DELETE FROM t'']"

section \<open>Facts about the string functions\<close>

lemmas case_defs = upper_def upper_char_def upper_special_def lower_def lower_char_def

lemmas cfg_defs = get_db_config_def resolve_server_def getenv_default_def use_windows_auth_def
  auth_parts_def encryption_parts_def server_part_def localdb_prefix_def lower_def lower_char_def
  missing_configuration_def no_driver_def sql_server_drivers_def lit_def

lemmas act_defs = and_then_def try_except_def call_def lift_def succeed_def raise_def

lemmas strip_defs = strip_comments_def strip_line_comments_def cut_line_comment_def lit_def

lemma lit_markers:
  "lit ''--'' = [45, 45]" "lit ''/*'' = [SLASH, STAR]" "lit ''*/'' = [STAR, SLASH]"
  by (simp_all add: lit_def)

lemma split_on_not_Nil: "split_on sep s \<noteq> []"
  by (induction s) (auto split: list.splits)

lemma split_on_no_sep: "l \<in> set (split_on sep s) \<Longrightarrow> sep \<notin> set l"
  by (induction s arbitrary: l) (auto split: list.splits if_splits)

lemma split_on_first:
  "sep \<notin> set t \<Longrightarrow> split_on sep (t @ sep # rest) = t # split_on sep rest"
  by (induction t) auto

lemma split_on_only: "sep \<notin> set t \<Longrightarrow> split_on sep t = [t]"
  by (induction t) auto

lemma split_on_join:
  "ls \<noteq> [] \<Longrightarrow> \<forall>l \<in> set ls. sep \<notin> set l \<Longrightarrow> split_on sep (join [sep] ls) = ls"
proof (induction ls)
  case Nil
  then show ?case by simp
next
  case (Cons l ls)
  show ?case
  proof (cases ls)
    case Nil
    with Cons.prems show ?thesis by (simp add: split_on_only)
  next
    case (Cons q qs)
    with Cons.IH Cons.prems show ?thesis by (simp add: split_on_first)
  qed
qed

lemma startswith_take: "startswith (take n s) sub \<Longrightarrow> startswith s sub"
  by (induction s sub arbitrary: n rule: startswith.induct) (auto simp: take_Cons' split: if_splits)




lemma find_str_take:
  "find_str l sub = Some i \<Longrightarrow> sub \<noteq> [] \<Longrightarrow> find_str (take i l) sub = None"
proof (induction l arbitrary: i)
  case Nil
  then show ?case by simp
next
  case (Cons c cs)
  show ?case
  proof (cases "startswith (c # cs) sub")
    case True
    with Cons.prems show ?thesis by simp
  next
    case False
    with Cons.prems obtain j where j: "find_str cs sub = Some j" and i: "i = Suc j"
      by auto
    from False have "\<not> startswith (take i (c # cs)) sub"
      using startswith_take by blast
    with i Cons.IH [OF j Cons.prems(2)] show ?thesis by simp
  qed
qed

subsection \<open>The first word\<close>

lemma split_ws_from_head:
  "w \<noteq> [] \<Longrightarrow> \<exists>ws. split_ws_from w s = (w @ takeWhile (\<lambda>c. \<not> is_space c) s) # ws"
proof (induction s arbitrary: w)
  case Nil
  then show ?case by simp
next
  case (Cons c cs)
  show ?case
  proof (cases "is_space c")
    case True
    with Cons.prems show ?thesis by simp
  next
    case False
    from Cons.IH [of "w @ [c]"] obtain ws
      where "split_ws_from (w @ [c]) cs = ((w @ [c]) @ takeWhile (\<lambda>c. \<not> is_space c) cs) # ws"
      by auto
    with False show ?thesis by simp
  qed
qed

lemma split_ws_head:
  assumes "s \<noteq> []" and "\<not> is_space (hd s)"
  shows "\<exists>ws. split_ws s = takeWhile (\<lambda>c. \<not> is_space c) s # ws"
proof -
  from assms obtain c cs where s: "s = c # cs" and c: "\<not> is_space c"
    by (cases s) auto
  from split_ws_from_head [of "[c]" cs] obtain ws
    where "split_ws_from [c] cs = ([c] @ takeWhile (\<lambda>c. \<not> is_space c) cs) # ws"
    by auto
  with s c show ?thesis
    by (simp add: split_ws_def)
qed

lemma takeWhile_spaces_only:
  "\<forall>c \<in> set b. is_space c \<Longrightarrow> takeWhile (\<lambda>c. \<not> is_space c) b = []"
  by (cases b) auto

lemma takeWhile_trailing_spaces:
  "\<forall>c \<in> set b. is_space c \<Longrightarrow>
     takeWhile (\<lambda>c. \<not> is_space c) (a @ b) = takeWhile (\<lambda>c. \<not> is_space c) a"
  by (induction a) (simp_all add: takeWhile_spaces_only)

lemma takeWhile_rstrip:
  "takeWhile (\<lambda>c. \<not> is_space c) (rev (dropWhile is_space (rev t)))
     = takeWhile (\<lambda>c. \<not> is_space c) t"
proof -
  let ?a = "rev (dropWhile is_space (rev t))" and ?b = "rev (takeWhile is_space (rev t))"
  have t: "t = ?a @ ?b"
    by (metis rev_append rev_rev_ident takeWhile_dropWhile_id)
  have "\<forall>c \<in> set ?b. is_space c"
    by (auto dest: set_takeWhileD)
  then have "takeWhile (\<lambda>c. \<not> is_space c) (?a @ ?b) = takeWhile (\<lambda>c. \<not> is_space c) ?a"
    by (rule takeWhile_trailing_spaces)
  with t show ?thesis by metis
qed

lemma strip_empty_iff: "strip s = [] \<longleftrightarrow> dropWhile is_space s = []"
proof
  assume "strip s = []"
  then have all: "\<forall>c \<in> set (dropWhile is_space s). is_space c"
    by (simp add: strip_def dropWhile_eq_Nil_conv)
  show "dropWhile is_space s = []"
  proof (rule ccontr)
    assume ne: "dropWhile is_space s \<noteq> []"
    then have "\<not> is_space (hd (dropWhile is_space s))" by (rule hd_dropWhile)
    moreover from ne have "hd (dropWhile is_space s) \<in> set (dropWhile is_space s)"
      by (rule hd_in_set)
    ultimately show False using all by blast
  qed
next
  assume "dropWhile is_space s = []"
  then show "strip s = []" by (simp only: strip_def rev.simps dropWhile.simps)
qed

lemma strip_starts_with_word:
  assumes "strip s \<noteq> []"
  shows "\<not> is_space (hd (strip s))"
proof -
  let ?t = "dropWhile is_space s"
  from assms have t: "?t \<noteq> []" by (simp add: strip_empty_iff)
  then have h: "\<not> is_space (hd ?t)" by (rule hd_dropWhile)
  have "?t = strip s @ rev (takeWhile is_space (rev ?t))"
    unfolding strip_def by (metis rev_append rev_rev_ident takeWhile_dropWhile_id)
  with assms have "hd ?t = hd (strip s)" by (metis hd_append2)
  with h show ?thesis by simp
qed

text \<open>The index in \<open>first_word\<close> never raises, and the word is the first token.\<close>

lemma first_word_first_token: "first_word s = Inr (first_token s)"
proof (cases "strip s = []")
  case True
  then have "dropWhile is_space s = []" by (simp only: strip_empty_iff)
  then have "first_token s = []" by (simp only: first_token_def takeWhile.simps)
  with True show ?thesis
    by (simp only: first_word_def simp_thms if_False)
next
  case False
  from split_ws_head [OF False strip_starts_with_word [OF False]] obtain ws
    where "split_ws (strip s) = takeWhile (\<lambda>c. \<not> is_space c) (strip s) # ws" ..
  moreover have "takeWhile (\<lambda>c. \<not> is_space c) (strip s) = first_token s"
    by (simp add: strip_def first_token_def takeWhile_rstrip)
  ultimately show ?thesis using False
    by (simp add: first_word_def)
qed

subsection \<open>Stripping twice\<close>

lemma strip_block_comments_id:
  "\<not> has_block_comment s \<Longrightarrow> strip_block_comments s = s"
  by (induction s) (auto split: option.splits)

lemma cut_line_comment_idem: "cut_line_comment (cut_line_comment l) = cut_line_comment l"
  by (auto simp: cut_line_comment_def find_str_take lit_markers split: option.splits)

lemma set_cut_line_comment: "set (cut_line_comment l) \<subseteq> set l"
  by (auto simp: cut_line_comment_def split: option.splits dest: in_set_takeD)

lemma strip_line_comments_idem:
  "strip_line_comments (strip_line_comments s) = strip_line_comments s"
proof -
  let ?ls = "map cut_line_comment (split_on NL s)"
  have "?ls \<noteq> []" by (simp add: split_on_not_Nil)
  moreover have "\<forall>l \<in> set ?ls. NL \<notin> set l"
    using set_cut_line_comment split_on_no_sep by fastforce
  ultimately have "split_on NL (join [NL] ?ls) = ?ls" by (rule split_on_join)
  then show ?thesis
    by (simp add: strip_line_comments_def cut_line_comment_idem comp_def)
qed

section \<open>The identifier validator\<close>

lemma word_char_not_dot: "is_word_char c \<Longrightarrow> c \<noteq> DOT"
  by (auto simp: is_word_char_def)

lemma identifier_no_dot: "is_identifier a \<Longrightarrow> DOT \<notin> set a"
  by (auto simp: is_identifier_def list_all_iff dest: word_char_not_dot)

lemma takeWhile_run:
  "list_all P a \<Longrightarrow> r = [] \<or> \<not> P (hd r) \<Longrightarrow> takeWhile P (a @ r) = a"
  by (induction a) (auto simp: takeWhile_eq_Nil_iff)

lemma dropWhile_run:
  "list_all P a \<Longrightarrow> r = [] \<or> \<not> P (hd r) \<Longrightarrow> dropWhile P (a @ r) = r"
  by (induction a) (auto simp: dropWhile_eq_self_iff)

text \<open>
  What the pattern accepts: one identifier or two joined by a dot, and after either, nothing
  or one line feed.
\<close>

lemma re_match_one_segment:
  assumes "is_identifier a" and "nl = [] \<or> nl = [NL]"
  shows "re_match_table_name (a @ nl)"
proof -
  from assms have a: "list_all is_word_char a" "a \<noteq> []" by (auto simp: is_identifier_def)
  from assms(2) have r: "nl = [] \<or> \<not> is_word_char (hd nl)" by (auto simp: is_word_char_def)
  note t1 = takeWhile_run [OF a(1) r] and d1 = dropWhile_run [OF a(1) r]
  from assms(2) have "at_dollar nl" by (simp add: at_dollar_def)
  with a(2) show ?thesis
    by (simp add: re_match_table_name_def t1 d1)
qed

lemma re_match_two_segments:
  assumes "is_identifier a" and "is_identifier b" and "nl = [] \<or> nl = [NL]"
  shows "re_match_table_name (a @ DOT # b @ nl)"
proof -
  from assms have a: "list_all is_word_char a" "a \<noteq> []" by (auto simp: is_identifier_def)
  from assms have b: "list_all is_word_char b" "b \<noteq> []" by (auto simp: is_identifier_def)
  have ra: "DOT # b @ nl = [] \<or> \<not> is_word_char (hd (DOT # b @ nl))"
    by (simp add: is_word_char_def)
  from assms(3) have rb: "nl = [] \<or> \<not> is_word_char (hd nl)" by (auto simp: is_word_char_def)
  note t1 = takeWhile_run [OF a(1) ra] and d1 = dropWhile_run [OF a(1) ra]
    and t2 = takeWhile_run [OF b(1) rb] and d2 = dropWhile_run [OF b(1) rb]
  from assms(3) have "at_dollar nl" by (simp add: at_dollar_def)
  with a(2) b(2) show ?thesis
    by (simp add: re_match_table_name_def match_group_def t1 d1 t2 d2)
qed

lemma re_match_shape:
  assumes "re_match_table_name s"
  shows "\<exists>a nl. is_identifier a \<and> (nl = [] \<or> nl = [NL]) \<and>
           (s = a @ nl \<or> (\<exists>b. is_identifier b \<and> s = a @ DOT # b @ nl))"
proof -
  let ?a = "takeWhile is_word_char s" and ?r = "dropWhile is_word_char s"
  have s: "s = ?a @ ?r" by simp
  from assms have a: "is_identifier ?a"
    by (auto simp: re_match_table_name_def is_identifier_def list_all_iff Let_def
             dest: set_takeWhileD)
  from assms have "match_group ?r \<or> at_dollar ?r"
    by (simp add: re_match_table_name_def Let_def)
  then show ?thesis
  proof
    assume "at_dollar ?r"
    then have "?r = [] \<or> ?r = [NL]" by (simp add: at_dollar_def)
    with a s show ?thesis by metis
  next
    assume "match_group ?r"
    then obtain cs where r: "?r = DOT # cs" and b: "takeWhile is_word_char cs \<noteq> []"
      and d: "at_dollar (dropWhile is_word_char cs)"
      by (auto simp: match_group_def split: list.splits)
    let ?b = "takeWhile is_word_char cs" and ?nl = "dropWhile is_word_char cs"
    from b have "is_identifier ?b"
      by (auto simp: is_identifier_def list_all_iff dest: set_takeWhileD)
    moreover from d have "?nl = [] \<or> ?nl = [NL]" by (simp add: at_dollar_def)
    moreover have "s = ?a @ DOT # ?b @ ?nl"
      using s r by simp
    ultimately show ?thesis using a by blast
  qed
qed

text \<open>
  On the strings of the grammar the validator returns the bracketed form, segment by
  segment; a string it rejects is carried, whole, by the error.
\<close>

lemma validate_table_name_one_segment:
  assumes "is_identifier a" and "nl = [] \<or> nl = [NL]"
  shows "validate_table_name (a @ nl) = Inr (lit ''['' @ a @ nl @ lit '']'')"
proof -
  from assms have "DOT \<notin> set (a @ nl)" by (auto dest: identifier_no_dot)
  then have "split_on DOT (a @ nl) = [a @ nl]" by (rule split_on_only)
  with re_match_one_segment [OF assms] show ?thesis
    by (simp add: validate_table_name_def)
qed

lemma validate_table_name_two_segments:
  assumes "is_identifier a" and "is_identifier b" and "nl = [] \<or> nl = [NL]"
  shows "validate_table_name (a @ DOT # b @ nl) = Inr (lit ''['' @ a @ lit ''].['' @ b @ nl @ lit '']'')"
proof -
  from assms have "DOT \<notin> set (b @ nl)" by (auto dest: identifier_no_dot)
  then have "split_on DOT (b @ nl) = [b @ nl]" by (rule split_on_only)
  moreover from assms(1) have "DOT \<notin> set a" by (rule identifier_no_dot)
  ultimately have "split_on DOT (a @ DOT # b @ nl) = [a, b @ nl]"
    by (simp add: split_on_first)
  with re_match_two_segments [OF assms] show ?thesis
    by (simp add: validate_table_name_def)
qed

lemma validate_table_name_rejects:
  "\<not> re_match_table_name s \<Longrightarrow>
     validate_table_name s = Inl (ValueError (lit ''Invalid table name: '' @ s))"
  by (simp add: validate_table_name_def)

text \<open>
  C1. The claim: every string of the grammar \<open>identifier\<close> or \<open>identifier.identifier\<close> is
  accepted and bracketed, and every other string is rejected. The second half fails on the
  code: the string \<open>abc\<close> followed by a line feed is not in the grammar, its last character
  being neither a word character nor a dot, and \<open>validate_table_name\<close> accepts it and
  returns it in brackets, line feed included. The same holds for \<open>dbo.abc\<close> followed by a
  line feed.
\<close>

theorem validate_table_name_trailing_newline:
  "validate_table_name (lit ''abc'' @ [NL]) = Inr (lit ''[abc'' @ [NL] @ lit '']'')
   \<and> validate_table_name (lit ''dbo.abc'' @ [NL]) = Inr (lit ''[dbo].[abc'' @ [NL] @ lit '']'')
   \<and> \<not> list_all (\<lambda>c. is_word_char c \<or> c = DOT) (lit ''abc'' @ [NL])"
  by (simp add: validate_table_name_def re_match_table_name_def match_group_def at_dollar_def
        is_word_char_def lit_def)

section \<open>The statement classifier\<close>

subsection \<open>The two passes do what the specification says\<close>

lemma contains_find: "contains t p \<longleftrightarrow> find_str t p \<noteq> None"
  by (induction t) auto

lemma scan_block_inside:
  "find_str t [STAR, SLASH] = Some i \<Longrightarrow>
     scan_block_comments True t = scan_block_comments False (drop (i + 2) t)"
proof (induction t arbitrary: i)
  case Nil
  then show ?case by simp
next
  case (Cons x r)
  show ?case
  proof (cases r)
    case Nil
    with Cons.prems show ?thesis by simp
  next
    case (Cons y r')
    show ?thesis
    proof (cases "x = STAR \<and> y = SLASH")
      case True
      with Cons.prems \<open>r = y # r'\<close> show ?thesis by simp
    next
      case False
      with Cons.prems \<open>r = y # r'\<close> obtain j where j: "find_str r [STAR, SLASH] = Some j"
        and i: "i = Suc j"
        by auto
      from False \<open>r = y # r'\<close>
      have "scan_block_comments True (x # r) = scan_block_comments True r"
        by auto
      with Cons.IH [OF j] i show ?thesis by simp
    qed
  qed
qed

text \<open>The regular-expression pass is the scan for block comments.\<close>

lemma strip_block_comments_scan: "strip_block_comments s = scan_block_comments False s"
proof (induction s rule: strip_block_comments.induct)
  case 1
  then show ?case by simp
next
  case (2 c cs)
  note l = lit_markers(3) and o = lit_markers(2)
  show ?case
  proof (cases "startswith (c # cs) (lit ''/*'')")
    case False
    with "2.IH" have ih: "strip_block_comments cs = scan_block_comments False cs" by blast
    from False have lhs: "strip_block_comments (c # cs) = c # strip_block_comments cs"
      by simp
    from False have rhs: "scan_block_comments False (c # cs) = c # scan_block_comments False cs"
      by (cases cs) (auto simp: o)
    from lhs rhs ih show ?thesis by simp
  next
    case True
    then obtain cs' where cs: "cs = STAR # cs'" and c: "c = SLASH"
      by (cases cs) (auto simp: o)
    have d: "drop 1 cs = cs'" using cs by simp
    show ?thesis
    proof (cases "find_str (drop 1 cs) (lit ''*/'')")
      case None
      with True "2.IH" have ih: "strip_block_comments cs = scan_block_comments False cs"
        by blast
      from True None have lhs: "strip_block_comments (c # cs) = c # strip_block_comments cs"
        by simp
      from None d l have "\<not> contains cs' [STAR, SLASH]" by (simp add: contains_find)
      then have rhs: "scan_block_comments False (c # cs) = c # scan_block_comments False cs"
        using cs by simp
      from lhs rhs ih show ?thesis by simp
    next
      case (Some i)
      with True "2.IH"
      have ih: "strip_block_comments (drop (i + 3) cs)
                  = scan_block_comments False (drop (i + 3) cs)"
        by blast
      from True Some
      have lhs: "strip_block_comments (c # cs) = strip_block_comments (drop (i + 3) cs)"
        by simp
      from Some d l have f: "find_str cs' [STAR, SLASH] = Some i" by simp
      then have "contains cs' [STAR, SLASH]" by (simp add: contains_find)
      then have "scan_block_comments False (c # cs) = scan_block_comments True cs'"
        using cs c by simp
      also have "\<dots> = scan_block_comments False (drop (i + 2) cs')"
        using f by (rule scan_block_inside)
      also have "drop (i + 2) cs' = drop (i + 3) cs"
        using cs by (simp add: numeral_3_eq_3)
      finally show ?thesis using lhs ih by simp
    qed
  qed
qed

lemma join_split_on: "join [sep] (split_on sep s) = s"
proof (induction s)
  case Nil
  then show ?case by simp
next
  case (Cons c cs)
  show ?case
  proof (cases "split_on sep cs")
    case Nil
    with split_on_not_Nil show ?thesis by blast
  next
    case (Cons p ps)
    with Cons.IH show ?thesis by (cases ps) auto
  qed
qed

lemma cut_line_comment_Cons:
  "cut_line_comment (c # cs)
     = (if startswith (c # cs) [45, 45] then [] else c # cut_line_comment cs)"
  by (auto simp: cut_line_comment_def lit_markers split: option.splits)

lemma scan_line_skip:
  "NL \<notin> set l \<Longrightarrow> scan_line_comments True (l @ t) = scan_line_comments True t"
  by (induction l) auto

lemma scan_line_at_end:
  "t = [] \<or> hd t = NL \<Longrightarrow> scan_line_comments True t = scan_line_comments False t"
  by (cases t) auto

lemma startswith_marker_append:
  "t = [] \<or> hd t = NL \<Longrightarrow> startswith (l @ t) [45, 45] = startswith l [45, 45]"
  by (cases l; cases "tl l"; cases t) auto

text \<open>One line, up to its line feed or the end of the text.\<close>

lemma scan_line_one:
  assumes "NL \<notin> set l" and "t = [] \<or> hd t = NL"
  shows "scan_line_comments False (l @ t) = cut_line_comment l @ scan_line_comments False t"
  using assms(1)
proof (induction l)
  case Nil
  then show ?case by (simp add: cut_line_comment_def lit_markers)
next
  case (Cons c cs)
  then have c: "c \<noteq> NL" and cs: "NL \<notin> set cs" by auto
  have m: "startswith (c # cs @ t) [45, 45] = startswith (c # cs) [45, 45]"
    using startswith_marker_append [OF assms(2), of "c # cs"] by simp
  show ?case
  proof (cases "startswith (c # cs) [45, 45]")
    case True
    with m c have "scan_line_comments False ((c # cs) @ t) = scan_line_comments True (cs @ t)"
      by (simp del: startswith.simps)
    also have "\<dots> = scan_line_comments False t"
      using scan_line_skip [OF cs] scan_line_at_end [OF assms(2)] by simp
    finally show ?thesis using True
      by (simp add: cut_line_comment_Cons del: startswith.simps)
  next
    case False
    with m c
    have "scan_line_comments False ((c # cs) @ t) = c # scan_line_comments False (cs @ t)"
      by (simp del: startswith.simps)
    with Cons.IH [OF cs] False show ?thesis
      by (simp add: cut_line_comment_Cons del: startswith.simps)
  qed
qed

lemma scan_line_lines:
  "ls \<noteq> [] \<Longrightarrow> \<forall>l \<in> set ls. NL \<notin> set l \<Longrightarrow>
     scan_line_comments False (join [NL] ls) = join [NL] (map cut_line_comment ls)"
proof (induction ls)
  case Nil
  then show ?case by simp
next
  case (Cons l ls)
  then have l: "NL \<notin> set l" by simp
  show ?case
  proof (cases ls)
    case Nil
    with scan_line_one [OF l, of "[]"] show ?thesis by simp
  next
    case (Cons q qs)
    with Cons.IH Cons.prems
    have ih: "scan_line_comments False (join [NL] ls) = join [NL] (map cut_line_comment ls)"
      by simp
    from scan_line_one [OF l, of "NL # join [NL] ls"]
    have "scan_line_comments False (l @ NL # join [NL] ls)
            = cut_line_comment l @ NL # scan_line_comments False (join [NL] ls)"
      by simp
    with ih Cons show ?thesis by simp
  qed
qed

text \<open>Splitting into lines, cutting each and joining them is the scan for line comments.\<close>

lemma strip_line_comments_scan: "strip_line_comments s = scan_line_comments False s"
proof -
  have "scan_line_comments False (join [NL] (split_on NL s))
          = join [NL] (map cut_line_comment (split_on NL s))"
    using split_on_not_Nil split_on_no_sep by (intro scan_line_lines) auto
  then show ?thesis by (simp add: strip_line_comments_def join_split_on)
qed

subsection \<open>The classification\<close>

lemmas classify_defs = stripped_text_def first_token_def is_space_def case_defs lit_def

text \<open>
  C2. For every statement text, \<open>is_select_query\<close> returns, and the value is true exactly
  when the first whitespace-delimited token of the stripped text is \<open>SELECT\<close> once put in
  upper case; in every other case, the empty statement among them, the value is false. The
  stripped text is the one the specification describes: the block comments go first,
  non-greedy and across lines, then on each line everything from \<open>--\<close> to its end. A line
  comment holding \<open>SELECT\<close> before an \<open>UPDATE\<close> gives false, a block comment before a
  \<open>SELECT\<close> gives true, and the empty text gives false.
\<close>

theorem is_select_query_first_token:
  "is_select_query query = Inr (upper (first_token (stripped_text query)) = lit ''SELECT'')
   \<and> is_select_query (lit ''-- SELECT'' @ [NL] @ lit ''UPDATE t SET x=1'') = Inr False
   \<and> is_select_query (lit ''/* c */ SELECT * FROM t'') = Inr True
   \<and> is_select_query [] = Inr False"
proof -
  have "is_select_query q = Inr (upper (first_token (stripped_text q)) = lit ''SELECT'')"
    for q
    by (simp add: is_select_query_def first_word_first_token stripped_text_def
          strip_block_comments_scan strip_line_comments_scan)
  then show ?thesis
    by (simp add: classify_defs)
qed

text \<open>
  The theorem at a lower-case statement after a line comment and a block comment that
  spans two lines, and at a statement that starts with the long s, U+017F, after a
  no-break space: both are SELECT statements.
\<close>

theorem is_select_query_first_token_witness:
  "is_select_query (lit ''-- note'' @ [NL] @ lit ''/* a'' @ [NL] @ lit ''b */  select 1'') = Inr True
   \<and> is_select_query (160 # 383 # lit ''elect 1'') = Inr True"
proof -
  from is_select_query_first_token
         [of "lit ''-- note'' @ [NL] @ lit ''/* a'' @ [NL] @ lit ''b */  select 1''"]
  have "is_select_query (lit ''-- note'' @ [NL] @ lit ''/* a'' @ [NL] @ lit ''b */  select 1'')
     = Inr (upper (first_token (stripped_text
              (lit ''-- note'' @ [NL] @ lit ''/* a'' @ [NL] @ lit ''b */  select 1'')))
            = lit ''SELECT'')"
    by (rule conjunct1)
  moreover from is_select_query_first_token [of "160 # 383 # lit ''elect 1''"]
  have "is_select_query (160 # 383 # lit ''elect 1'')
     = Inr (upper (first_token (stripped_text (160 # 383 # lit ''elect 1''))) = lit ''SELECT'')"
    by (rule conjunct1)
  ultimately show ?thesis
    by (simp add: classify_defs)
qed

text \<open>
  C8, amended. For every statement text whose stripped form holds no block comment,
  classifying the stripped form gives the same answer as classifying the text. Stripping
  the line comments twice is the same as stripping them once; stripping the block comments
  is not, since removing a comment can join a slash to a star.
\<close>

theorem is_select_query_restrip:
  "\<not> has_block_comment (strip_comments query) \<Longrightarrow>
     is_select_query (strip_comments query) = is_select_query query"
  by (simp add: is_select_query_def strip_comments_def strip_block_comments_id
        strip_line_comments_idem)

text \<open>The theorem at a statement with one comment of each kind.\<close>

theorem is_select_query_restrip_witness:
  "\<not> has_block_comment (strip_comments (lit ''/* c */ SELECT 1 -- x''))
   \<and> is_select_query (strip_comments (lit ''/* c */ SELECT 1 -- x''))
       = is_select_query (lit ''/* c */ SELECT 1 -- x'')"
proof -
  have h: "\<not> has_block_comment (strip_comments (lit ''/* c */ SELECT 1 -- x''))"
    by (simp add: strip_defs)
  from is_select_query_restrip [OF h] h show ?thesis by blast
qed

text \<open>
  The claim as it stands, for every statement text, fails: in \<open>//* c */* x */ SELECT 1\<close>
  the removal of \<open>/* c */\<close> leaves \<open>/* x */ SELECT 1\<close>, whose first token is \<open>/*\<close>, so the
  text is not a SELECT; the stripped text, classified again, loses \<open>/* x */\<close> and is one.
\<close>

theorem is_select_query_restrip_counterexample:
  "strip_comments (lit ''//* c */* x */ SELECT 1'') = lit ''/* x */ SELECT 1''
   \<and> is_select_query (lit ''//* c */* x */ SELECT 1'') = Inr False
   \<and> is_select_query (strip_comments (lit ''//* c */* x */ SELECT 1'')) = Inr True"
  by (simp add: is_select_query_def first_word_def strip_defs strip_def split_ws_def
        is_space_def case_defs)

section \<open>Configuration\<close>

lemma example_config_resolves:
  "get_db_config example_env example_drivers = Inr example_config"
  by (simp add: cfg_defs Let_def example_env_def example_drivers_def example_conn_string_def
        example_config_def)

lemma get_db_config_no_driver:
  "sql_server_drivers pyodbc_drivers = [] \<Longrightarrow> get_db_config env pyodbc_drivers = Inl no_driver"
  by (simp add: get_db_config_def)

lemma auth_parts_windows:
  "use_windows_auth env \<Longrightarrow> auth_parts env = Inr [lit ''Trusted_Connection=yes'']"
  by (simp add: auth_parts_def)

lemma auth_parts_missing:
  "\<not> use_windows_auth env \<Longrightarrow>
   env ''MSSQL_USER'' = None \<or> env ''MSSQL_USER'' = Some [] \<or>
   env ''MSSQL_PASSWORD'' = None \<or> env ''MSSQL_PASSWORD'' = Some [] \<Longrightarrow>
   auth_parts env = Inl missing_configuration"
  by (auto simp: auth_parts_def split: option.splits)

lemma get_db_config_missing_credentials:
  assumes "auth_parts env = Inl missing_configuration"
    and "sql_server_drivers pyodbc_drivers \<noteq> []"
  shows "get_db_config env pyodbc_drivers = Inl missing_configuration"
  using assms by (auto simp: get_db_config_def Let_def split: list.splits option.splits)

text \<open>The parts of a resolved descriptor, in the order the function appends them.\<close>

lemma get_db_config_parts:
  assumes "get_db_config env pyodbc_drivers = Inr config"
  shows "\<exists>driver database auth.
           cfg_conn_parts config =
             [lit ''DRIVER={'' @ driver @ lit ''}'', server_part (cfg_server config) (cfg_port config),
              (lit ''DATABASE='') @ database] @ auth @ encryption_parts env (cfg_server config)
         \<and> (auth = [lit ''Trusted_Connection=yes''] \<or> (\<exists>u p. auth = [lit ''UID='' @ u, lit ''PWD='' @ p]))
         \<and> cfg_conn_string config = join (lit '';'') (cfg_conn_parts config)
         \<and> cfg_server config = resolve_server env"
  using assms
  by (auto simp: get_db_config_def Let_def auth_parts_def
           split: list.splits option.splits sum.splits if_splits)

text \<open>
  C6, amended. With the integrated-auth flag set and a database name present, the result
  of \<open>get_db_config\<close> is the same whatever the principal and the credential are, present
  or absent: it fails only when no SQL Server driver is registered, and otherwise it
  succeeds with the trusted-connection part and the user \<open>Windows Auth\<close>. With the flag
  not set, a principal or a credential that is absent or empty makes the resolution fail:
  with the missing-configuration error when a SQL Server driver is registered, and with the
  no-driver error when none is, the driver being checked first.
\<close>

theorem get_db_config_credentials:
  "(use_windows_auth env \<and> env ''MSSQL_DATABASE'' = Some database \<and> database \<noteq> [] \<longrightarrow>
      get_db_config (env(''MSSQL_USER'' := any_user, ''MSSQL_PASSWORD'' := any_password))
          pyodbc_drivers
        = get_db_config env pyodbc_drivers
      \<and> (get_db_config env pyodbc_drivers = Inl no_driver \<and> sql_server_drivers pyodbc_drivers = []
         \<or> (\<exists>config. get_db_config env pyodbc_drivers = Inr config
               \<and> lit ''Trusted_Connection=yes'' \<in> set (cfg_conn_parts config)
               \<and> cfg_user config = Some (lit ''Windows Auth''))))
   \<and> (\<not> use_windows_auth env \<and>
        (env ''MSSQL_USER'' = None \<or> env ''MSSQL_USER'' = Some [] \<or>
         env ''MSSQL_PASSWORD'' = None \<or> env ''MSSQL_PASSWORD'' = Some []) \<longrightarrow>
        get_db_config env pyodbc_drivers
          = Inl (if sql_server_drivers pyodbc_drivers = [] then no_driver
                 else missing_configuration))"
proof -
  have indep: "use_windows_auth env \<Longrightarrow>
      get_db_config (env(''MSSQL_USER'' := any_user, ''MSSQL_PASSWORD'' := any_password))
          pyodbc_drivers
        = get_db_config env pyodbc_drivers"
    by (cases "sql_server_drivers pyodbc_drivers"; cases "env ''MSSQL_DATABASE''")
       (simp_all add: get_db_config_def auth_parts_def use_windows_auth_def resolve_server_def
          getenv_default_def encryption_parts_def Let_def)
  have ok: "use_windows_auth env \<Longrightarrow> env ''MSSQL_DATABASE'' = Some database \<Longrightarrow>
      database \<noteq> [] \<Longrightarrow>
      get_db_config env pyodbc_drivers = Inl no_driver \<and> sql_server_drivers pyodbc_drivers = []
         \<or> (\<exists>config. get_db_config env pyodbc_drivers = Inr config
               \<and> lit ''Trusted_Connection=yes'' \<in> set (cfg_conn_parts config)
               \<and> cfg_user config = Some (lit ''Windows Auth''))"
    by (cases "sql_server_drivers pyodbc_drivers")
       (simp_all add: get_db_config_def auth_parts_windows Let_def)
  have missing: "\<not> use_windows_auth env \<Longrightarrow>
        (env ''MSSQL_USER'' = None \<or> env ''MSSQL_USER'' = Some [] \<or>
         env ''MSSQL_PASSWORD'' = None \<or> env ''MSSQL_PASSWORD'' = Some []) \<Longrightarrow>
        get_db_config env pyodbc_drivers
          = Inl (if sql_server_drivers pyodbc_drivers = [] then no_driver
                 else missing_configuration)"
    using auth_parts_missing [of env] get_db_config_missing_credentials [of env pyodbc_drivers]
      get_db_config_no_driver [of pyodbc_drivers env]
    by (cases "sql_server_drivers pyodbc_drivers = []") simp_all
  from indep ok missing show ?thesis by blast
qed

text \<open>
  The theorem at an environment with the flag set and neither principal nor credential, and
  at one with the flag not set and neither of them.
\<close>

theorem get_db_config_credentials_witness:
  "use_windows_auth windows_env \<and> windows_env ''MSSQL_DATABASE'' = Some (lit ''shop'')
   \<and> windows_env ''MSSQL_USER'' = None \<and> windows_env ''MSSQL_PASSWORD'' = None
   \<and> (\<exists>config. get_db_config windows_env example_drivers = Inr config
         \<and> cfg_user config = Some (lit ''Windows Auth''))
   \<and> \<not> use_windows_auth database_only_env
   \<and> get_db_config database_only_env example_drivers = Inl missing_configuration"
proof -
  have w: "use_windows_auth windows_env \<and> windows_env ''MSSQL_DATABASE'' = Some (lit ''shop'')
           \<and> lit ''shop'' \<noteq> []"
    by (simp add: use_windows_auth_def windows_env_def getenv_default_def lower_def lower_char_def
          lit_def)
  have n: "\<not> use_windows_auth database_only_env
           \<and> (database_only_env ''MSSQL_USER'' = None
              \<or> database_only_env ''MSSQL_USER'' = Some []
              \<or> database_only_env ''MSSQL_PASSWORD'' = None
              \<or> database_only_env ''MSSQL_PASSWORD'' = Some [])"
    by (simp add: use_windows_auth_def getenv_default_def lower_def lower_char_def
          database_only_env_def lit_def)
  have d: "sql_server_drivers example_drivers \<noteq> []"
    by (simp add: sql_server_drivers_def example_drivers_def lit_def)
  have e: "windows_env ''MSSQL_USER'' = None \<and> windows_env ''MSSQL_PASSWORD'' = None"
    by (simp add: windows_env_def)
  from get_db_config_credentials
         [where env = windows_env and database = "lit ''shop''" and pyodbc_drivers = example_drivers]
       get_db_config_credentials
         [where env = "database_only_env" and pyodbc_drivers = example_drivers]
       w n d e
  show ?thesis by auto
qed

text \<open>
  The claim as it stands fails where no SQL Server driver is registered: with the flag not
  set and neither principal nor credential, the error is the no-driver error, not the
  missing-configuration one.
\<close>

theorem get_db_config_credentials_counterexample:
  "\<not> use_windows_auth database_only_env
   \<and> database_only_env ''MSSQL_USER'' = None
   \<and> get_db_config database_only_env [lit ''SQLite3 ODBC Driver''] = Inl no_driver
   \<and> no_driver \<noteq> missing_configuration"
  by (simp add: cfg_defs database_only_env_def)

text \<open>
  C7. In a resolved descriptor the connection string is the parts joined by semicolons. If
  the host contains \<open>.database.windows.net\<close> and MSSQL_ENCRYPT is not set, the encryption
  settings are \<open>Encrypt=yes\<close> and \<open>TrustServerCertificate=no\<close>. For any other host there
  are no encryption settings when MSSQL_ENCRYPT is not set, and when it is set to
  \<open>true\<close>, in any mix of cases, they are \<open>Encrypt=yes\<close> and
  \<open>TrustServerCertificate=yes\<close>.
\<close>

theorem get_db_config_encryption:
  assumes "get_db_config env pyodbc_drivers = Inr config"
  shows "cfg_conn_string config = join (lit '';'') (cfg_conn_parts config)
       \<and> (contains (cfg_server config) (lit ''.database.windows.net'') \<and> env ''MSSQL_ENCRYPT'' = None
            \<longrightarrow> encryption_settings config = [lit ''Encrypt=yes'', lit ''TrustServerCertificate=no''])
       \<and> (\<not> contains (cfg_server config) (lit ''.database.windows.net'')
            \<and> env ''MSSQL_ENCRYPT'' = None
            \<longrightarrow> encryption_settings config = [])
       \<and> (\<not> contains (cfg_server config) (lit ''.database.windows.net'')
            \<and> env ''MSSQL_ENCRYPT'' = Some flag \<and> lower flag = lit ''true''
            \<longrightarrow> encryption_settings config = [lit ''Encrypt=yes'', lit ''TrustServerCertificate=yes''])"
proof -
  from get_db_config_parts [OF assms] obtain driver database auth where
    parts: "cfg_conn_parts config =
             [lit ''DRIVER={'' @ driver @ lit ''}'', server_part (cfg_server config) (cfg_port config),
              (lit ''DATABASE='') @ database] @ auth @ encryption_parts env (cfg_server config)"
    and auth: "auth = [lit ''Trusted_Connection=yes''] \<or> (\<exists>u p. auth = [lit ''UID='' @ u, lit ''PWD='' @ p])"
    and str: "cfg_conn_string config = join (lit '';'') (cfg_conn_parts config)"
    by blast
  from auth have a:
    "filter (\<lambda>p. startswith p (lit ''Encrypt='') \<or> startswith p (lit ''TrustServerCertificate=''))
       auth = []"
    by (auto simp: lit_def)
  have b:
    "filter (\<lambda>p. startswith p (lit ''Encrypt='') \<or> startswith p (lit ''TrustServerCertificate=''))
       [lit ''DRIVER={'' @ driver @ lit ''}'', server_part (cfg_server config) (cfg_port config),
        lit ''DATABASE='' @ database] = []"
    by (simp add: server_part_def lit_def)
  have settings: "encryption_settings config =
      filter (\<lambda>p. startswith p (lit ''Encrypt='') \<or> startswith p (lit ''TrustServerCertificate=''))
        (encryption_parts env (cfg_server config))"
    by (simp only: encryption_settings_def parts filter_append a b append_Nil)
  show ?thesis
    by (simp add: str settings encryption_parts_def getenv_default_def lower_def lower_char_def
          lit_def)
qed

text \<open>
  The theorem at a cloud host with no override, at a local host with no override, and at a
  local host with MSSQL_ENCRYPT set to \<open>TRUE\<close>.
\<close>

theorem get_db_config_encryption_witness:
  "(\<exists>config. get_db_config cloud_env example_drivers = Inr config
      \<and> contains (cfg_server config) (lit ''.database.windows.net'') \<and> cloud_env ''MSSQL_ENCRYPT'' = None
      \<and> encryption_settings config = [lit ''Encrypt=yes'', lit ''TrustServerCertificate=no''])
   \<and> (\<exists>config. get_db_config example_env example_drivers = Inr config
      \<and> \<not> contains (cfg_server config) (lit ''.database.windows.net'')
      \<and> example_env ''MSSQL_ENCRYPT'' = None
      \<and> encryption_settings config = [])
   \<and> (\<exists>config. get_db_config encrypt_env example_drivers = Inr config
      \<and> \<not> contains (cfg_server config) (lit ''.database.windows.net'')
      \<and> encrypt_env ''MSSQL_ENCRYPT'' = Some (lit ''TRUE'') \<and> lower (lit ''TRUE'') = lit ''true''
      \<and> encryption_settings config = [lit ''Encrypt=yes'', lit ''TrustServerCertificate=yes''])"
proof -
  obtain c1 where c1: "get_db_config cloud_env example_drivers = Inr c1"
    and s1: "cfg_server c1 = lit ''shop.database.windows.net''"
    by (simp add: cfg_defs Let_def cloud_env_def example_env_def example_drivers_def)
  obtain c2 where c2: "get_db_config example_env example_drivers = Inr c2"
    and s2: "cfg_server c2 = lit ''localhost''"
    by (simp add: example_config_resolves example_config_def)
  obtain c3 where c3: "get_db_config encrypt_env example_drivers = Inr c3"
    and s3: "cfg_server c3 = lit ''localhost''"
    by (simp add: cfg_defs Let_def encrypt_env_def example_env_def example_drivers_def)
  have e1: "cloud_env ''MSSQL_ENCRYPT'' = None"
    by (simp add: cloud_env_def example_env_def)
  have e2: "example_env ''MSSQL_ENCRYPT'' = None"
    by (simp add: example_env_def)
  have e3: "encrypt_env ''MSSQL_ENCRYPT'' = Some (lit ''TRUE'') \<and> lower (lit ''TRUE'') = lit ''true''"
    by (simp add: encrypt_env_def lower_def lower_char_def lit_def)
  from s1 have k1: "contains (cfg_server c1) (lit ''.database.windows.net'')"
    by (simp add: lit_def)
  from s2 have k2: "\<not> contains (cfg_server c2) (lit ''.database.windows.net'')"
    by (simp add: lit_def)
  from s3 have k3: "\<not> contains (cfg_server c3) (lit ''.database.windows.net'')"
    by (simp add: lit_def)
  from get_db_config_encryption [OF c1] k1 e1
  have "encryption_settings c1 = [lit ''Encrypt=yes'', lit ''TrustServerCertificate=no'']"
    by blast
  moreover from get_db_config_encryption [OF c2] k2 e2
  have "encryption_settings c2 = []" by blast
  moreover from get_db_config_encryption [OF c3, of "lit ''TRUE''"] k3 e3
  have "encryption_settings c3 = [lit ''Encrypt=yes'', lit ''TrustServerCertificate=yes'']"
    by blast
  ultimately show ?thesis using c1 c2 c3 k1 k2 k3 e1 e2 e3 by simp
qed




section \<open>Properties of the handlers\<close>

lemma and_then_Inr:
  "and_then m f log = (Inr r, log') \<longleftrightarrow> (\<exists>v l. m log = (Inr v, l) \<and> f v l = (Inr r, log'))"
  by (auto simp: and_then_def split: prod.splits sum.splits)

lemma try_except_Inl:
  "m log = (Inl e, log') \<Longrightarrow> try_except m h log = h e log'"
  by (simp add: try_except_def)

lemma try_except_Inr:
  "m log = (Inr v, log') \<Longrightarrow> try_except m h log = (Inr v, log')"
  by (simp add: try_except_def)

text \<open>What \<open>call_tool\<close> returns from its \<open>try\<close> is one text payload.\<close>

lemma call_tool_try_payload:
  "call_tool_try config db query log = (Inr r, log') \<Longrightarrow> \<exists>payload. r = [TextContent payload]"
  by (auto simp: call_tool_try_def and_then_Inr succeed_def split: if_splits)

lemma call_tool_after_config:
  assumes "get_db_config env pyodbc_drivers = Inr config"
    and "tool_name = get_command env" and "arguments ''query'' = Some query" and "query \<noteq> []"
  shows "call_tool env pyodbc_drivers db tool_name arguments log =
           try_except (call_tool_try config db query)
             (\<lambda>e. succeed [TextContent (lit ''Error executing query: '' @ str_of_error e)]) log"
  using assms by (simp add: call_tool_def and_then_def lift_def)


lemma split_on_takeWhile:
  "\<exists>ps. split_on sep t = takeWhile (\<lambda>c. c \<noteq> sep) t # ps"
  by (induction t) auto

lemma takeWhile_no_sep: "sep \<notin> set (takeWhile (\<lambda>c. c \<noteq> sep) t)"
  by (auto dest: set_takeWhileD)

lemma mssql_prefix:
  "startswith (lit ''mssql://'' @ rest) (lit ''mssql://'')"
  "drop 8 (lit ''mssql://'' @ rest) = rest"
  by (simp_all add: lit_def)

lemma table_segment_data:
  "SLASH \<notin> set seg \<Longrightarrow> table_segment (lit ''mssql://'' @ seg @ lit ''/data'') = seg"
proof -
  assume "SLASH \<notin> set seg"
  then have "takeWhile (\<lambda>c. c \<noteq> SLASH) (seg @ SLASH # lit ''data'') = seg"
    by (induction seg) auto
  moreover have "lit ''/data'' = SLASH # lit ''data''" by (simp add: lit_def)
  ultimately show ?thesis by (simp only: table_segment_def mssql_prefix(2))
qed

text \<open>Past the test of the scheme, the handler works on the first segment alone.\<close>

lemma read_resource_segment:
  assumes "get_db_config env pyodbc_drivers = Inr config"
    and "startswith uri_str (lit ''mssql://'')"
  shows "read_resource env pyodbc_drivers db uri_str log =
           try_except (read_resource_try config db (table_segment uri_str))
             (\<lambda>e. raise (RuntimeError (lit ''Database error: '' @ str_of_error e))) log"
proof -
  from split_on_takeWhile [of SLASH "drop 8 uri_str"] obtain ps
    where "split_on SLASH (drop 8 uri_str) = table_segment uri_str # ps"
    by (auto simp: table_segment_def)
  with assms show ?thesis
    by (simp add: read_resource_def and_then_def lift_def)
qed

lemma read_resource_try_invalid:
  "\<not> re_match_table_name table \<Longrightarrow>
     read_resource_try config db table log
       = (Inl (ValueError (lit ''Invalid table name: '' @ table)), log)"
  by (simp add: read_resource_try_def validate_table_name_def and_then_def lift_def)

text \<open>
  On the paths that return from the \<open>try\<close>, the connection that was opened is closed: the
  log of driver calls starts with the connect and ends with the two closes.
\<close>

lemma call_tool_try_closes:
  "call_tool_try config db query log = (Inr r, log') \<Longrightarrow>
     \<exists>calls. log' = log @ EvConnect (cfg_conn_string config) # calls @ [EvCursorClose, EvConnClose]"
  by (auto simp: call_tool_try_def and_then_Inr succeed_def call_def lift_def split: if_splits)

lemma read_resource_try_closes:
  "read_resource_try config db table log = (Inr r, log') \<Longrightarrow>
     \<exists>calls. log' = log @ EvConnect (cfg_conn_string config) # calls @ [EvCursorClose, EvConnClose]"
  by (auto simp: read_resource_try_def and_then_Inr succeed_def call_def lift_def Let_def)

lemmas handler_defs = act_defs healthy_db_def rejecting_db_def catalog_db_def example_config_def
  is_select_query_def first_word_def strip_defs strip_def split_ws_def is_space_def case_defs
  column_names_def tabular_text_def join_items_def str_nat.simps
  validate_table_name_def re_match_table_name_def match_group_def at_dollar_def is_word_char_def
  Let_def

text \<open>
  C3. For \<open>call_tool\<close> with the configured tool name and a present, non-empty query, the
  execution being the \<open>try\<close> that the handler enters with its resolved configuration:
  whatever the driver does, the handler returns one text payload and raises nothing, and
  an exception raised anywhere in the execution comes back as the payload
  \<open>Error executing query:\<close> followed by its text.
\<close>

theorem call_tool_execution_errors_returned:
  assumes "get_db_config env pyodbc_drivers = Inr config"
    and "tool_name = get_command env" and "arguments ''query'' = Some query" and "query \<noteq> []"
  shows "(\<exists>payload log'. call_tool env pyodbc_drivers db tool_name arguments log
                        = (Inr [TextContent payload], log'))
       \<and> (\<forall>e log'. call_tool_try config db query log = (Inl e, log') \<longrightarrow>
            call_tool env pyodbc_drivers db tool_name arguments log
              = (Inr [TextContent (lit ''Error executing query: '' @ str_of_error e)], log'))"
proof -
  from assms have eq: "call_tool env pyodbc_drivers db tool_name arguments log =
           try_except (call_tool_try config db query)
             (\<lambda>e. succeed [TextContent (lit ''Error executing query: '' @ str_of_error e)]) log"
    by (rule call_tool_after_config)
  have caught: "\<forall>e log'. call_tool_try config db query log = (Inl e, log') \<longrightarrow>
            call_tool env pyodbc_drivers db tool_name arguments log
              = (Inr [TextContent (lit ''Error executing query: '' @ str_of_error e)], log')"
    by (simp add: eq try_except_Inl succeed_def)
  obtain res log' where res: "call_tool_try config db query log = (res, log')"
    by (cases "call_tool_try config db query log")
  have "\<exists>payload log'. call_tool env pyodbc_drivers db tool_name arguments log
                        = (Inr [TextContent payload], log')"
  proof (cases res)
    case (Inl e)
    with res caught show ?thesis by blast
  next
    case (Inr r)
    with res call_tool_try_payload obtain payload where "r = [TextContent payload]" by blast
    with res Inr show ?thesis by (simp add: eq try_except_Inr)
  qed
  with caught show ?thesis by blast
qed

text \<open>
  The theorem at a statement the driver rejects, and at a listing of the catalog whose
  first cells are integers: there the exception is the TypeError of the join, raised in the
  \<open>return\<close> statement after both closes.
\<close>

theorem call_tool_execution_errors_returned_witness:
  "get_db_config example_env example_drivers = Inr example_config
   \<and> lit ''execute_sql'' = get_command example_env
   \<and> rejected_arguments ''query'' = Some (lit ''SELEC 1'') \<and> lit ''SELEC 1'' \<noteq> []
   \<and> call_tool example_env example_drivers rejecting_db (lit ''execute_sql'') rejected_arguments []
       = (Inr [TextContent (lit ''Error executing query: syntax error'')],
          [EvConnect example_conn_string, EvCursor, EvExecute (lit ''SELEC 1'')])
   \<and> listing_arguments ''query'' = Some (lit ''select * from information_schema.tables'')
   \<and> call_tool example_env example_drivers healthy_db (lit ''execute_sql'') listing_arguments []
       = (Inr [TextContent
                 (lit ''Error executing query: sequence item 1: expected str instance, int found'')],
          [EvConnect example_conn_string, EvCursor,
           EvExecute (lit ''select * from information_schema.tables''),
           EvFetchall, EvCursorClose, EvConnClose])"
proof -
  note h1 = example_config_resolves
  have h2: "lit ''execute_sql'' = get_command example_env"
    by (simp add: get_command_def getenv_default_def example_env_def)
  have h3: "rejected_arguments ''query'' = Some (lit ''SELEC 1'')"
    by (simp add: rejected_arguments_def)
  have h4: "lit ''SELEC 1'' \<noteq> []" by (simp add: lit_def)
  have t: "call_tool_try example_config rejecting_db (lit ''SELEC 1'') []
       = (Inl (DriverError (lit ''syntax error'')),
          [EvConnect example_conn_string, EvCursor, EvExecute (lit ''SELEC 1'')])"
    by (simp add: call_tool_try_def act_defs rejecting_db_def healthy_db_def example_config_def)
  from call_tool_execution_errors_returned
         [where env = example_env and pyodbc_drivers = example_drivers
            and config = example_config and tool_name = "lit ''execute_sql''"
            and arguments = rejected_arguments and query = "lit ''SELEC 1''"
            and db = rejecting_db and log = "[]"]
       h1 h2 h3 h4 t
  have r: "call_tool example_env example_drivers rejecting_db (lit ''execute_sql'')
             rejected_arguments []
       = (Inr [TextContent (lit ''Error executing query: ''
                            @ str_of_error (DriverError (lit ''syntax error'')))],
          [EvConnect example_conn_string, EvCursor, EvExecute (lit ''SELEC 1'')])"
    by blast
  have g3: "listing_arguments ''query'' = Some (lit ''select * from information_schema.tables'')"
    by (simp add: listing_arguments_def)
  have g4: "lit ''select * from information_schema.tables'' \<noteq> []" by (simp add: lit_def)
  have u: "call_tool_try example_config healthy_db (lit ''select * from information_schema.tables'') []
       = (Inl (TypeError (lit ''sequence item 1: expected str instance, int found'')),
          [EvConnect example_conn_string, EvCursor,
           EvExecute (lit ''select * from information_schema.tables''),
           EvFetchall, EvCursorClose, EvConnClose])"
    by (simp add: call_tool_try_def handler_defs)
  from call_tool_execution_errors_returned
         [where env = example_env and pyodbc_drivers = example_drivers
            and config = example_config and tool_name = "lit ''execute_sql''"
            and arguments = listing_arguments
            and query = "lit ''select * from information_schema.tables''"
            and db = healthy_db and log = "[]"]
       h1 h2 g3 g4 u
  have s: "call_tool example_env example_drivers healthy_db (lit ''execute_sql'')
             listing_arguments []
       = (Inr [TextContent (lit ''Error executing query: ''
                 @ str_of_error
                     (TypeError (lit ''sequence item 1: expected str instance, int found'')))],
          [EvConnect example_conn_string, EvCursor,
           EvExecute (lit ''select * from information_schema.tables''),
           EvFetchall, EvCursorClose, EvConnClose])"
    by blast
  from r s h1 h2 h3 h4 g3 show ?thesis by (simp add: lit_def)
qed

text \<open>
  C4. The claim: \<open>read_resource\<close> and \<open>call_tool\<close> close the connection they opened before
  they return, on every exit path, the error paths included. With a driver whose
  \<open>execute\<close> raises, each handler connects, and the log of its driver calls ends at the
  failed \<open>execute\<close>: no close of the cursor and none of the connection is made, neither
  in the \<open>try\<close> nor in the handler of the exception.
\<close>

theorem handlers_leave_connection_open:
  "call_tool example_env example_drivers rejecting_db (lit ''execute_sql'') delete_arguments []
     = (Inr [TextContent (lit ''Error executing query: syntax error'')],
        [EvConnect example_conn_string, EvCursor, EvExecute (lit ''DELETE FROM t'')])
   \<and> read_resource example_env example_drivers rejecting_db (lit ''mssql://Orders/data'') []
     = (Inl (RuntimeError (lit ''Database error: syntax error'')),
        [EvConnect example_conn_string, EvCursor,
         EvExecute (lit ''SELECT TOP 100 * FROM [Orders]'')])"
proof -
  have c: "get_command example_env = lit ''execute_sql''"
    by (simp add: get_command_def getenv_default_def example_env_def)
  show ?thesis
    by (simp add: call_tool_def call_tool_try_def read_resource_def read_resource_try_def
          example_config_resolves c delete_arguments_def handler_defs)
qed




text \<open>
  C9, amended. Once the configuration has resolved, \<open>read_resource\<close> raises the
  invalid-scheme error exactly for the URIs that do not start with \<open>mssql://\<close>. For a URI
  that does, the handler works on the first segment alone, the text up to the first slash
  or to the end: the result is that of the URI made of the scheme, that segment and
  \<open>/data\<close>, whatever follows the segment, \<open>/data\<close>, another path or nothing. A segment
  that is not a valid table name is rejected before any call of the driver, with the
  database error that carries \<open>Invalid table name:\<close> and the segment, not with the
  invalid-scheme error.
\<close>

theorem read_resource_uri:
  assumes "get_db_config env pyodbc_drivers = Inr config"
  shows "(fst (read_resource env pyodbc_drivers db uri_str log)
            = Inl (ValueError (lit ''Invalid URI scheme: '' @ uri_str))
          \<longleftrightarrow> \<not> startswith uri_str (lit ''mssql://''))
       \<and> (startswith uri_str (lit ''mssql://'') \<longrightarrow>
            read_resource env pyodbc_drivers db uri_str log
              = try_except (read_resource_try config db (table_segment uri_str))
                  (\<lambda>e. raise (RuntimeError (lit ''Database error: '' @ str_of_error e))) log
            \<and> read_resource env pyodbc_drivers db uri_str log
              = read_resource env pyodbc_drivers db
                  (lit ''mssql://'' @ table_segment uri_str @ lit ''/data'') log)
       \<and> (startswith uri_str (lit ''mssql://'') \<and> \<not> re_match_table_name (table_segment uri_str)
            \<longrightarrow> read_resource env pyodbc_drivers db uri_str log
              = (Inl (RuntimeError (lit ''Database error: Invalid table name: ''
                                    @ table_segment uri_str)), log))"
proof -
  have scheme: "fst (read_resource env pyodbc_drivers db uri_str log)
            = Inl (ValueError (lit ''Invalid URI scheme: '' @ uri_str))
          \<longleftrightarrow> \<not> startswith uri_str (lit ''mssql://'')"
    using assms
    by (auto simp: read_resource_def act_defs split: list.splits prod.splits sum.splits)
  have segment: "read_resource env pyodbc_drivers db uri_str log
              = try_except (read_resource_try config db (table_segment uri_str))
                  (\<lambda>e. raise (RuntimeError (lit ''Database error: '' @ str_of_error e))) log"
    if "startswith uri_str (lit ''mssql://'')"
    using assms that by (rule read_resource_segment)
  have data: "read_resource env pyodbc_drivers db uri_str log
              = read_resource env pyodbc_drivers db
                  (lit ''mssql://'' @ table_segment uri_str @ lit ''/data'') log"
    if s: "startswith uri_str (lit ''mssql://'')"
  proof -
    have "SLASH \<notin> set (table_segment uri_str)"
      unfolding table_segment_def by (rule takeWhile_no_sep)
    then have "table_segment (lit ''mssql://'' @ table_segment uri_str @ lit ''/data'')
                 = table_segment uri_str"
      by (rule table_segment_data)
    with read_resource_segment [OF assms mssql_prefix(1),
           of db "table_segment uri_str @ lit ''/data''" log]
         segment [OF s]
    show ?thesis by simp
  qed
  have invalid: "read_resource env pyodbc_drivers db uri_str log
              = (Inl (RuntimeError (lit ''Database error: Invalid table name: ''
                                    @ table_segment uri_str)), log)"
    if "startswith uri_str (lit ''mssql://'')" and "\<not> re_match_table_name (table_segment uri_str)"
    using segment [OF that(1)] read_resource_try_invalid [OF that(2), of config db log]
    by (simp add: try_except_def raise_def lit_def)
  from scheme segment data invalid show ?thesis by blast
qed

text \<open>
  The theorem at a URI of another scheme, at a URI with no path after the table, and at a
  URI whose segment has a space in it.
\<close>

theorem read_resource_uri_witness:
  "get_db_config example_env example_drivers = Inr example_config
   \<and> \<not> startswith (lit ''http://Orders/data'') (lit ''mssql://'')
   \<and> fst (read_resource example_env example_drivers healthy_db (lit ''http://Orders/data'') [])
       = Inl (ValueError (lit ''Invalid URI scheme: http://Orders/data''))
   \<and> startswith (lit ''mssql://Orders'') (lit ''mssql://'')
   \<and> table_segment (lit ''mssql://Orders'') = lit ''Orders''
   \<and> read_resource example_env example_drivers healthy_db (lit ''mssql://Orders'') []
       = read_resource example_env example_drivers healthy_db (lit ''mssql://Orders/data'') []
   \<and> startswith (lit ''mssql://Order Details/data'') (lit ''mssql://'')
   \<and> \<not> re_match_table_name (table_segment (lit ''mssql://Order Details/data''))
   \<and> read_resource example_env example_drivers healthy_db (lit ''mssql://Order Details/data'') []
       = (Inl (RuntimeError (lit ''Database error: Invalid table name: Order Details'')), [])"
proof -
  note h = example_config_resolves
  have a: "\<not> startswith (lit ''http://Orders/data'') (lit ''mssql://'')"
    by (simp add: lit_def)
  have b: "startswith (lit ''mssql://Orders'') (lit ''mssql://'')"
    and b': "table_segment (lit ''mssql://Orders'') = lit ''Orders''"
    by (simp_all add: table_segment_def lit_def)
  have c: "startswith (lit ''mssql://Order Details/data'') (lit ''mssql://'')"
    and c': "table_segment (lit ''mssql://Order Details/data'') = lit ''Order Details''"
    and c'': "\<not> re_match_table_name (table_segment (lit ''mssql://Order Details/data''))"
    and d: "\<not> re_match_table_name (lit ''Order Details'')"
    by (simp_all add: table_segment_def re_match_table_name_def match_group_def at_dollar_def
          is_word_char_def lit_def)
  from read_resource_uri [OF h, of healthy_db "lit ''http://Orders/data''" "[]"] a
  have r1: "fst (read_resource example_env example_drivers healthy_db (lit ''http://Orders/data'') [])
       = Inl (ValueError (lit ''Invalid URI scheme: '' @ lit ''http://Orders/data''))"
    by blast
  from read_resource_uri [OF h, of healthy_db "lit ''mssql://Orders''" "[]"] b
  have r2: "read_resource example_env example_drivers healthy_db (lit ''mssql://Orders'') []
       = read_resource example_env example_drivers healthy_db
           (lit ''mssql://'' @ table_segment (lit ''mssql://Orders'') @ lit ''/data'') []"
    by blast
  from read_resource_uri [OF h, of healthy_db "lit ''mssql://Order Details/data''" "[]"] c c''
  have r3: "read_resource example_env example_drivers healthy_db
              (lit ''mssql://Order Details/data'') []
       = (Inl (RuntimeError (lit ''Database error: Invalid table name: ''
                 @ table_segment (lit ''mssql://Order Details/data''))), [])"
    by blast
  have j: "lit ''mssql://'' @ lit ''Orders'' @ lit ''/data'' = lit ''mssql://Orders/data''"
    "lit ''Invalid URI scheme: '' @ lit ''http://Orders/data''
       = lit ''Invalid URI scheme: http://Orders/data''"
    "lit ''Database error: Invalid table name: '' @ lit ''Order Details''
       = lit ''Database error: Invalid table name: Order Details''"
    by (simp_all add: lit_def)
  from r1 r2 r3 show ?thesis
    by (simp only: h a b b' c c' d j simp_thms)
qed

text \<open>
  The claim as it stands fails: a URI with the scheme and a table and no \<open>/data\<close>, or
  with another path, is not rejected; it reads the table.
\<close>

theorem read_resource_uri_counterexample:
  "read_resource example_env example_drivers healthy_db (lit ''mssql://Orders'') []
     = (Inr (lit ''Id,Name'' @ [NL] @ lit ''1,A''),
        [EvConnect example_conn_string, EvCursor,
         EvExecute (lit ''SELECT TOP 100 * FROM [Orders]''),
         EvFetchall, EvCursorClose, EvConnClose])
   \<and> fst (read_resource example_env example_drivers healthy_db (lit ''mssql://Orders/rows/7'') [])
     = Inr (lit ''Id,Name'' @ [NL] @ lit ''1,A'')"
  by (simp add: read_resource_def read_resource_try_def example_config_resolves handler_defs)

end
